theory Spec2Isabelle
  imports Main
begin

section \<open>Data model of \<^verbatim>\<open>main.go\<close>\<close>

text \<open>
  A Go \<^verbatim>\<open>string\<close> is a sequence of bytes; it is modelled as \<^typ>\<open>string\<close>, a list of
  8-bit characters. The token kinds are the string constants of the source.
\<close>

definition TokenConsole :: string where "TokenConsole = ''CONSOLE''"
definition TokenLog :: string where "TokenLog = ''LOG''"
definition TokenString :: string where "TokenString = ''STRING''"
definition TokenInt :: string where "TokenInt = ''INT''"
definition TokenPlus :: string where "TokenPlus = ''PLUS''"
definition TokenMinus :: string where "TokenMinus = ''MINUS''"
definition TokenMultiply :: string where "TokenMultiply = ''MULTIPLY''"
definition TokenDivide :: string where "TokenDivide = ''DIVIDE''"
definition TokenModulo :: string where "TokenModulo = ''MODULO''"
definition TokenPower :: string where "TokenPower = ''POWER''"

lemmas Token_defs =
  TokenConsole_def TokenLog_def TokenString_def TokenInt_def TokenPlus_def
  TokenMinus_def TokenMultiply_def TokenDivide_def TokenModulo_def TokenPower_def

record Token =
  Type :: string
  Literal :: string

text \<open>
  The interface \<^verbatim>\<open>Node\<close> has nine implementations; each is a constructor.
\<close>

datatype Node =
    ConsoleLogNode "Node list"
  | StringNode string
  | PlusNode Node Node
  | MinusNode Node Node
  | MultiplyNode Node Node
  | DivideNode Node Node
  | ModuloNode Node Node
  | PowerNode Node Node
  | IntNode string

text \<open>
  Every way in which the program stops abnormally is a value. The first three are
  panics of the Go runtime, \<open>InvalidSyntax\<close> is the \<^verbatim>\<open>panic("Invalid syntax")\<close> of
  \<^verbatim>\<open>Parse\<close>. \<open>FloatOutsideModel\<close> is not a panic: it marks the arguments of
  \<^verbatim>\<open>math.Pow\<close> on which the result depends on floating-point rounding or on the
  platform's float-to-int conversion, which this development does not model.
\<close>

datatype fault =
    SliceBoundsOutOfRange
  | IndexOutOfRange
  | IntegerDivideByZero
  | InvalidSyntax
  | FloatOutsideModel

section \<open>The Go library functions the program calls\<close>

subsection \<open>\<^verbatim>\<open>strconv.Atoi\<close> and \<^verbatim>\<open>strconv.Itoa\<close>\<close>

text \<open>
  \<^verbatim>\<open>int\<close> is taken to be 64 bits wide. \<^verbatim>\<open>Atoi\<close> accepts an optional sign followed
  by at least one decimal digit. On a syntax error it returns 0 with an error; on a
  numeral outside the range of \<^verbatim>\<open>int\<close> it returns the nearest bound with an error.
  The second component says whether the error is nil.
\<close>

definition maxInt :: int where "maxInt = 2 ^ 63 - 1"
definition minInt :: int where "minInt = - (2 ^ 63)"

definition isDigit :: "char \<Rightarrow> bool" where
  "isDigit c \<longleftrightarrow> 48 \<le> (of_char c :: int) \<and> (of_char c :: int) \<le> 57"

definition digitVal :: "char \<Rightarrow> int" where
  "digitVal c = of_char c - 48"

definition decimal :: "string \<Rightarrow> int" where
  "decimal ds = foldl (\<lambda>n c. 10 * n + digitVal c) 0 ds"

definition unsignedPart :: "string \<Rightarrow> string" where
  "unsignedPart s =
     (if s \<noteq> [] \<and> (hd s = CHR ''+'' \<or> hd s = CHR ''-'') then tl s else s)"

definition isNumeral :: "string \<Rightarrow> bool" where
  "isNumeral s \<longleftrightarrow> unsignedPart s \<noteq> [] \<and> list_all isDigit (unsignedPart s)"

definition Atoi :: "string \<Rightarrow> int \<times> bool" where
  "Atoi s =
     (if isNumeral s
      then (let neg = (hd s = CHR ''-'');
                v = (if neg then - decimal (unsignedPart s) else decimal (unsignedPart s))
            in if maxInt < v then (maxInt, False)
               else if v < minInt then (minInt, False)
               else (v, True))
      else (0, False))"

text \<open>
  \<^verbatim>\<open>Itoa\<close> prints the decimal digits, most significant first, after a minus sign
  for a negative number.
\<close>

definition digitChar :: "int \<Rightarrow> char" where
  "digitChar d = ''0123456789'' ! nat d"

function digitsOf :: "int \<Rightarrow> string" where
  "digitsOf n = (if n < 10 then [digitChar n] else digitsOf (n div 10) @ [digitChar (n mod 10)])"
  by pat_completeness auto
termination
  by (relation "measure nat") auto

declare digitsOf.simps [simp del]

definition Itoa :: "int \<Rightarrow> string" where
  "Itoa i = (if i < 0 then CHR ''-'' # digitsOf (- i) else digitsOf i)"

subsection \<open>Arithmetic on \<^verbatim>\<open>int\<close>\<close>

text \<open>
  Addition, subtraction and multiplication wrap around in two's complement. The
  quotient is truncated towards zero and the remainder has the sign of the dividend;
  both panic on a zero divisor, which the callers check.
\<close>

definition wrapInt :: "int \<Rightarrow> int" where
  "wrapInt x = (x + 2 ^ 63) mod 2 ^ 64 - 2 ^ 63"

definition quoInt :: "int \<Rightarrow> int \<Rightarrow> int" where
  "quoInt a b = sgn a * sgn b * (\<bar>a\<bar> div \<bar>b\<bar>)"

definition remInt :: "int \<Rightarrow> int \<Rightarrow> int" where
  "remInt a b = sgn a * (\<bar>a\<bar> mod \<bar>b\<bar>)"

text \<open>
  \<^verbatim>\<open>int(math.Pow(float64(left), float64(right)))\<close>. A float64 holds every integer of
  magnitude up to \<open>2 ^ 53\<close> exactly, and on such a base, a non-negative such exponent
  and such a power every intermediate product of \<^verbatim>\<open>math.Pow\<close> is exact, so the result
  is the integer power and the conversion to \<^verbatim>\<open>int\<close> truncates nothing. Elsewhere
  the value is left out of the model.
\<close>

definition float64Exact :: "int \<Rightarrow> bool" where
  "float64Exact n \<longleftrightarrow> \<bar>n\<bar> \<le> 2 ^ 53"

definition powInt :: "int \<Rightarrow> int \<Rightarrow> int option" where
  "powInt l r =
     (if 0 \<le> r \<and> float64Exact l \<and> float64Exact r \<and> float64Exact (l ^ nat r)
      then Some (l ^ nat r) else None)"

subsection \<open>\<^verbatim>\<open>strings.Join\<close>\<close>

fun Join :: "string list \<Rightarrow> string \<Rightarrow> string" where
  "Join [] sep = []"
| "Join [x] sep = x"
| "Join (x # y # ys) sep = x @ sep @ Join (y # ys) sep"

section \<open>Execution of nodes\<close>

text \<open>
  \<^verbatim>\<open>Execute\<close> of a binary node executes the left operand, then the right one, converts
  both texts with \<^verbatim>\<open>Atoi\<close> dropping the error, and prints the result with \<^verbatim>\<open>Itoa\<close>.
  \<^verbatim>\<open>ConsoleLogNode.Execute\<close> fills \<^verbatim>\<open>args\<close> in argument order; \<open>ExecuteArgs\<close> is
  that loop.
\<close>

definition binary :: "(int \<Rightarrow> int \<Rightarrow> fault + int) \<Rightarrow> fault + string \<Rightarrow> fault + string \<Rightarrow> fault + string" where
  "binary f l r =
     (case l of
        Inl e \<Rightarrow> Inl e
      | Inr ls \<Rightarrow>
          (case r of
             Inl e \<Rightarrow> Inl e
           | Inr rs \<Rightarrow>
               (case f (fst (Atoi ls)) (fst (Atoi rs)) of
                  Inl e \<Rightarrow> Inl e
                | Inr v \<Rightarrow> Inr (Itoa v))))"

definition plusOp :: "int \<Rightarrow> int \<Rightarrow> fault + int" where
  "plusOp left right = Inr (wrapInt (left + right))"

definition minusOp :: "int \<Rightarrow> int \<Rightarrow> fault + int" where
  "minusOp left right = Inr (wrapInt (left - right))"

definition multiplyOp :: "int \<Rightarrow> int \<Rightarrow> fault + int" where
  "multiplyOp left right = Inr (wrapInt (left * right))"

definition divideOp :: "int \<Rightarrow> int \<Rightarrow> fault + int" where
  "divideOp left right =
     (if right = 0 then Inl IntegerDivideByZero else Inr (wrapInt (quoInt left right)))"

definition moduloOp :: "int \<Rightarrow> int \<Rightarrow> fault + int" where
  "moduloOp left right =
     (if right = 0 then Inl IntegerDivideByZero else Inr (remInt left right))"

definition powerOp :: "int \<Rightarrow> int \<Rightarrow> fault + int" where
  "powerOp left right =
     (case powInt left right of None \<Rightarrow> Inl FloatOutsideModel | Some v \<Rightarrow> Inr v)"

fun Execute :: "Node \<Rightarrow> fault + string"
  and ExecuteArgs :: "Node list \<Rightarrow> fault + string list"
where
  "Execute (ConsoleLogNode arguments) =
     (case ExecuteArgs arguments of
        Inl e \<Rightarrow> Inl e
      | Inr args \<Rightarrow> Inr (Join args '' ''))"
| "Execute (StringNode v) = Inr v"
| "Execute (PlusNode l r) = binary plusOp (Execute l) (Execute r)"
| "Execute (MinusNode l r) = binary minusOp (Execute l) (Execute r)"
| "Execute (MultiplyNode l r) = binary multiplyOp (Execute l) (Execute r)"
| "Execute (DivideNode l r) = binary divideOp (Execute l) (Execute r)"
| "Execute (ModuloNode l r) = binary moduloOp (Execute l) (Execute r)"
| "Execute (PowerNode l r) = binary powerOp (Execute l) (Execute r)"
| "Execute (IntNode v) = Inr v"
| "ExecuteArgs [] = Inr []"
| "ExecuteArgs (arg # rest) =
     (case Execute arg of
        Inl e \<Rightarrow> Inl e
      | Inr s \<Rightarrow>
          (case ExecuteArgs rest of
             Inl e \<Rightarrow> Inl e
           | Inr ss \<Rightarrow> Inr (s # ss)))"


section \<open>The \<^verbatim>\<open>strings\<close> functions the lexer calls\<close>

text \<open>
  Indices are \<^typ>\<open>int\<close>, since \<^verbatim>\<open>Index\<close>, \<^verbatim>\<open>LastIndex\<close> and \<^verbatim>\<open>IndexAny\<close> return -1
  when there is no occurrence. The separators and patterns the program passes are single
  ASCII bytes, so \<^verbatim>\<open>Index\<close>, \<^verbatim>\<open>LastIndex\<close> and \<^verbatim>\<open>Split\<close> take a byte.
\<close>

definition Index :: "string \<Rightarrow> char \<Rightarrow> int" where
  "Index s c = (if c \<in> set s then int (length (takeWhile (\<lambda>x. x \<noteq> c) s)) else - 1)"

definition LastIndex :: "string \<Rightarrow> char \<Rightarrow> int" where
  "LastIndex s c =
     (if c \<in> set s then int (length s) - 1 - int (length (takeWhile (\<lambda>x. x \<noteq> c) (rev s)))
      else - 1)"

definition ContainsAny :: "string \<Rightarrow> string \<Rightarrow> bool" where
  "ContainsAny s chars \<longleftrightarrow> list_ex (\<lambda>x. x \<in> set chars) s"

definition IndexAny :: "string \<Rightarrow> string \<Rightarrow> int" where
  "IndexAny s chars =
     (if ContainsAny s chars then int (length (takeWhile (\<lambda>x. x \<notin> set chars) s)) else - 1)"

definition HasPrefix :: "string \<Rightarrow> string \<Rightarrow> bool" where
  "HasPrefix s p \<longleftrightarrow> take (length p) s = p"

definition HasSuffix :: "string \<Rightarrow> string \<Rightarrow> bool" where
  "HasSuffix s p \<longleftrightarrow> length p \<le> length s \<and> drop (length s - length p) s = p"

fun Split :: "string \<Rightarrow> char \<Rightarrow> string list" where
  "Split [] sep = [[]]"
| "Split (c # cs) sep =
     (if c = sep then [] # Split cs sep
      else (case Split cs sep of [] \<Rightarrow> [[c]] | x # xs \<Rightarrow> (c # x) # xs))"

text \<open>
  \<^verbatim>\<open>FieldsFunc\<close>: the maximal runs of bytes on which the predicate is false; \<open>cur\<close> is
  the field being read.
\<close>

fun fields :: "(char \<Rightarrow> bool) \<Rightarrow> string \<Rightarrow> string \<Rightarrow> string list" where
  "fields f cur [] = (if cur = [] then [] else [cur])"
| "fields f cur (c # cs) =
     (if f c then (if cur = [] then fields f [] cs else cur # fields f [] cs)
      else fields f (cur @ [c]) cs)"

definition FieldsFunc :: "string \<Rightarrow> (char \<Rightarrow> bool) \<Rightarrow> string list" where
  "FieldsFunc s f = fields f [] s"

text \<open>
  The slice expression \<^verbatim>\<open>s[lo:hi]\<close> panics unless \<open>0 \<le> lo \<le> hi \<le> len(s)\<close>.
\<close>

definition slice :: "string \<Rightarrow> int \<Rightarrow> int \<Rightarrow> fault + string" where
  "slice s lo hi =
     (if 0 \<le> lo \<and> lo \<le> hi \<and> hi \<le> int (length s)
      then Inr (take (nat (hi - lo)) (drop (nat lo) s))
      else Inl SliceBoundsOutOfRange)"

subsection \<open>\<^verbatim>\<open>strings.TrimSpace\<close>\<close>

text \<open>
  \<^verbatim>\<open>TrimSpace\<close> removes the leading and the trailing runes for which
  \<^verbatim>\<open>unicode.IsSpace\<close> holds. \<open>spaceRunes\<close> lists their UTF-8 encodings: the six ASCII
  ones, U+0085, U+00A0, U+1680, U+2000 to U+200A, U+2028, U+2029, U+202F, U+205F and
  U+3000. No encoding is a prefix or a suffix of another one.
\<close>

definition spaceRunes :: "string list" where
  "spaceRunes =
     [[CHR 0x09], [CHR 0x0A], [CHR 0x0B], [CHR 0x0C], [CHR 0x0D], [CHR 0x20],
      [CHR 0xC2, CHR 0x85], [CHR 0xC2, CHR 0xA0],
      [CHR 0xE1, CHR 0x9A, CHR 0x80],
      [CHR 0xE2, CHR 0x80, CHR 0x80], [CHR 0xE2, CHR 0x80, CHR 0x81],
      [CHR 0xE2, CHR 0x80, CHR 0x82], [CHR 0xE2, CHR 0x80, CHR 0x83],
      [CHR 0xE2, CHR 0x80, CHR 0x84], [CHR 0xE2, CHR 0x80, CHR 0x85],
      [CHR 0xE2, CHR 0x80, CHR 0x86], [CHR 0xE2, CHR 0x80, CHR 0x87],
      [CHR 0xE2, CHR 0x80, CHR 0x88], [CHR 0xE2, CHR 0x80, CHR 0x89],
      [CHR 0xE2, CHR 0x80, CHR 0x8A],
      [CHR 0xE2, CHR 0x80, CHR 0xA8], [CHR 0xE2, CHR 0x80, CHR 0xA9],
      [CHR 0xE2, CHR 0x80, CHR 0xAF], [CHR 0xE2, CHR 0x81, CHR 0x9F],
      [CHR 0xE3, CHR 0x80, CHR 0x80]]"

definition leadingSpace :: "string \<Rightarrow> nat" where
  "leadingSpace s =
     (if s = [] then 0
      else if take 1 s \<in> set spaceRunes then 1
      else if take 2 s \<in> set spaceRunes then 2
      else if take 3 s \<in> set spaceRunes then 3
      else 0)"

definition trailingSpace :: "string \<Rightarrow> nat" where
  "trailingSpace s =
     (if s = [] then 0
      else if drop (length s - 1) s \<in> set spaceRunes then 1
      else if drop (length s - 2) s \<in> set spaceRunes then 2
      else if drop (length s - 3) s \<in> set spaceRunes then 3
      else 0)"

function trimLeft :: "string \<Rightarrow> string" where
  "trimLeft s = (if leadingSpace s = 0 then s else trimLeft (drop (leadingSpace s) s))"
  by pat_completeness auto
termination
  by (relation "measure length") (auto simp: leadingSpace_def split: if_splits)

function trimRight :: "string \<Rightarrow> string" where
  "trimRight s =
     (if trailingSpace s = 0 then s else trimRight (take (length s - trailingSpace s) s))"
  by pat_completeness auto
termination
  by (relation "measure length") (auto simp: trailingSpace_def split: if_splits)

declare trimLeft.simps [simp del] trimRight.simps [simp del]

definition TrimSpace :: "string \<Rightarrow> string" where
  "TrimSpace s = trimRight (trimLeft s)"

text \<open>
  The printable ASCII characters other than the space. No encoding in \<open>spaceRunes\<close>
  starts or ends with one.
\<close>

definition graphic :: "char \<Rightarrow> bool" where
  "graphic c \<longleftrightarrow> 33 \<le> (of_char c :: int) \<and> (of_char c :: int) \<le> 126"

section \<open>The lexer\<close>

text \<open>
  \<^verbatim>\<open>Lex\<close> appends to \<^verbatim>\<open>tokens\<close>; the token list is passed through the loops. A
  panic discards it. \<open>operatorToken\<close> is the \<^verbatim>\<open>switch operator\<close>, which has no
  default case.
\<close>

definition operators :: string where
  "operators = ''+-*%/^''"

definition operatorToken :: "string \<Rightarrow> Token list" where
  "operatorToken operator =
     (if operator = ''+'' then [\<lparr>Type = TokenPlus, Literal = operator\<rparr>]
      else if operator = ''-'' then [\<lparr>Type = TokenMinus, Literal = operator\<rparr>]
      else if operator = ''*'' then [\<lparr>Type = TokenMultiply, Literal = operator\<rparr>]
      else if operator = ''/'' then [\<lparr>Type = TokenDivide, Literal = operator\<rparr>]
      else if operator = ''%'' then [\<lparr>Type = TokenModulo, Literal = operator\<rparr>]
      else if operator = ''^'' then [\<lparr>Type = TokenPower, Literal = operator\<rparr>]
      else [])"

text \<open>The operator characters with the token kinds of the cases of the switch.\<close>

definition operatorKinds :: "(char \<times> string) list" where
  "operatorKinds =
     [(CHR ''+'', TokenPlus), (CHR ''-'', TokenMinus), (CHR ''*'', TokenMultiply),
      (CHR ''/'', TokenDivide), (CHR ''%'', TokenModulo), (CHR ''^'', TokenPower)]"

definition lexArg :: "string \<Rightarrow> fault + Token list" where
  \<open>lexArg a =
     (let arg = TrimSpace a in
      if HasPrefix arg ''"'' \<and> HasSuffix arg ''"'' then
        (case slice arg 1 (int (length arg) - 1) of
           Inl e \<Rightarrow> Inl e
         | Inr lit \<Rightarrow> Inr [\<lparr>Type = TokenString, Literal = lit\<rparr>])
      else if ContainsAny arg operators then
        (let operatorIndex = IndexAny arg operators in
         case slice arg 0 operatorIndex of
           Inl e \<Rightarrow> Inl e
         | Inr s1 \<Rightarrow>
             (case slice arg operatorIndex (operatorIndex + 1) of
                Inl e \<Rightarrow> Inl e
              | Inr s2 \<Rightarrow>
                  (case slice arg (operatorIndex + 1) (int (length arg)) of
                     Inl e \<Rightarrow> Inl e
                   | Inr s3 \<Rightarrow>
                       (let num1 = TrimSpace s1;
                            operator = TrimSpace s2;
                            num2 = TrimSpace s3
                        in Inr ([\<lparr>Type = TokenInt, Literal = num1\<rparr>]
                                @ operatorToken operator
                                @ [\<lparr>Type = TokenInt, Literal = num2\<rparr>])))))
      else Inr [\<lparr>Type = TokenInt, Literal = arg\<rparr>])\<close>

fun lexArgs :: "string list \<Rightarrow> Token list \<Rightarrow> fault + Token list" where
  "lexArgs [] tokens = Inr tokens"
| "lexArgs (a # rest) tokens =
     (case lexArg a of
        Inl e \<Rightarrow> Inl e
      | Inr ts \<Rightarrow> lexArgs rest (tokens @ ts))"

fun lexWords :: "string list \<Rightarrow> Token list \<Rightarrow> Token list" where
  "lexWords [] tokens = tokens"
| "lexWords (word # rest) tokens =
     lexWords rest
       (if word = ''console'' then tokens @ [\<lparr>Type = TokenConsole, Literal = word\<rparr>]
        else if word = ''log'' then tokens @ [\<lparr>Type = TokenLog, Literal = word\<rparr>]
        else tokens)"

definition lexStmt :: "string \<Rightarrow> Token list \<Rightarrow> fault + Token list" where
  "lexStmt stmt tokens =
     (let startIndex = Index stmt CHR ''('';
          endIndex = LastIndex stmt CHR '')''
      in case slice stmt 0 startIndex of
           Inl e \<Rightarrow> Inl e
         | Inr front \<Rightarrow>
             (let consoleLog = FieldsFunc front (\<lambda>r. r = CHR '' '' \<or> r = CHR ''.'')
              in case slice stmt (startIndex + 1) endIndex of
                   Inl e \<Rightarrow> Inl e
                 | Inr inner \<Rightarrow>
                     (let arguments = Split inner CHR '',''
                      in lexArgs arguments (lexWords consoleLog tokens))))"

fun lexStmts :: "string list \<Rightarrow> Token list \<Rightarrow> fault + Token list" where
  "lexStmts [] tokens = Inr tokens"
| "lexStmts (s # rest) tokens =
     (let stmt = TrimSpace s
      in if stmt = [] then lexStmts rest tokens
         else (case lexStmt stmt tokens of
                 Inl e \<Rightarrow> Inl e
               | Inr tokens' \<Rightarrow> lexStmts rest tokens'))"

definition Lex :: "string \<Rightarrow> fault + Token list" where
  "Lex input = lexStmts (Split input CHR '';'') []"

section \<open>The parser\<close>

text \<open>
  \<open>binaryNode\<close> is the \<^verbatim>\<open>switch tokens[i+1].Type\<close> of \<^verbatim>\<open>Parse\<close>: it appends one node
  for an operator kind and nothing otherwise. \<open>parseArgs\<close> is the inner loop, from
  cursor \<open>i\<close> with the arguments collected so far; it returns the cursor and the
  arguments. The inner loop reads \<^verbatim>\<open>tokens[i+1]\<close> and \<^verbatim>\<open>tokens[i+2]\<close> only behind
  the test \<^verbatim>\<open>i+2 < len(tokens)\<close>.
\<close>

definition binaryNode :: "string \<Rightarrow> string \<Rightarrow> string \<Rightarrow> Node list" where
  "binaryNode kind l r =
     (if kind = TokenPlus then [PlusNode (IntNode l) (IntNode r)]
      else if kind = TokenMinus then [MinusNode (IntNode l) (IntNode r)]
      else if kind = TokenMultiply then [MultiplyNode (IntNode l) (IntNode r)]
      else if kind = TokenDivide then [DivideNode (IntNode l) (IntNode r)]
      else if kind = TokenModulo then [ModuloNode (IntNode l) (IntNode r)]
      else if kind = TokenPower then [PowerNode (IntNode l) (IntNode r)]
      else [])"

function parseArgs :: "Token list \<Rightarrow> nat \<Rightarrow> Node list \<Rightarrow> nat \<times> Node list" where
  "parseArgs tokens i args =
     (if i < length tokens \<and> Type (tokens ! i) \<noteq> TokenConsole then
        (if Type (tokens ! i) = TokenString then
           parseArgs tokens (i + 1) (args @ [StringNode (Literal (tokens ! i))])
         else if Type (tokens ! i) = TokenInt then
           (if i + 2 < length tokens \<and> Type (tokens ! (i + 2)) = TokenInt then
              parseArgs tokens (i + 2 + 1)
                (args @ binaryNode (Type (tokens ! (i + 1)))
                          (Literal (tokens ! i)) (Literal (tokens ! (i + 2))))
            else parseArgs tokens (i + 1) (args @ [IntNode (Literal (tokens ! i))]))
         else parseArgs tokens (i + 1) args)
      else (i, args))"
  by pat_completeness auto
termination
  by (relation "measure (\<lambda>(tokens, i, args). length tokens - i)") auto

declare parseArgs.simps [simp del]

lemma parseArgs_cursor: "i \<le> fst (parseArgs tokens i args)"
proof (induction tokens i args rule: parseArgs.induct)
  case (1 tokens i args)
  show ?case
    using "1" by (subst parseArgs.simps) (auto simp del: One_nat_def)
qed

lemma parseArgs_result_cursor: "(j, a) = parseArgs tokens i args \<Longrightarrow> i \<le> j"
  using parseArgs_cursor [of i tokens args] by (cases "parseArgs tokens i args") simp

text \<open>
  The outer loop of \<^verbatim>\<open>Parse\<close>. The condition
  \<^verbatim>\<open>tokens[i].Type == TokenConsole && tokens[i+1].Type == TokenLog\<close> reads
  \<^verbatim>\<open>tokens[i+1]\<close> whenever the first conjunct holds, with no test of \<^verbatim>\<open>i+1\<close> against the
  length: past the end the index expression panics.
\<close>

function parseFrom :: "Token list \<Rightarrow> nat \<Rightarrow> Node list \<Rightarrow> fault + Node list" where
  "parseFrom tokens i nodes =
     (if i < length tokens then
        (if Type (tokens ! i) = TokenConsole then
           (if i + 1 < length tokens then
              (if Type (tokens ! (i + 1)) = TokenLog then
                 (case parseArgs tokens (i + 2) [] of
                    (j, args) \<Rightarrow> parseFrom tokens j (nodes @ [ConsoleLogNode args]))
               else Inl InvalidSyntax)
            else Inl IndexOutOfRange)
         else Inl InvalidSyntax)
      else Inr nodes)"
  by pat_completeness auto
termination
  by (relation "measure (\<lambda>(tokens, i, nodes). length tokens - i)")
     (auto dest!: parseArgs_result_cursor)

declare parseFrom.simps [simp del]

definition Parse :: "Token list \<Rightarrow> fault + Node list" where
  "Parse tokens = parseFrom tokens 0 []"

section \<open>Evaluation\<close>

text \<open>
  \<^verbatim>\<open>Eval\<close> calls \<^verbatim>\<open>fmt.Println\<close> once per node; standard output is the list of the
  texts printed so far, one entry per call. A panic in \<^verbatim>\<open>Execute\<close> ends the run and
  leaves what was printed. \<open>pipeline\<close> is the chain \<^verbatim>\<open>Eval(Parse(Lex(data)))\<close> of
  \<^verbatim>\<open>main\<close>, without the dumps of the tokens and the tree that \<^verbatim>\<open>main\<close> prints before.
\<close>

fun Eval :: "Node list \<Rightarrow> string list \<Rightarrow> string list \<times> fault option" where
  "Eval [] out = (out, None)"
| "Eval (node # rest) out =
     (case Execute node of
        Inl e \<Rightarrow> (out, Some e)
      | Inr line \<Rightarrow> Eval rest (out @ [line]))"

definition pipeline :: "string \<Rightarrow> string list \<times> fault option" where
  "pipeline data =
     (case Lex data of
        Inl e \<Rightarrow> ([], Some e)
      | Inr tokens \<Rightarrow>
          (case Parse tokens of
             Inl e \<Rightarrow> ([], Some e)
           | Inr ast \<Rightarrow> Eval ast []))"

section \<open>The parser on the token sequences of the lexer\<close>

text \<open>
  Claim C1 says that, at an \<open>INT\<close> token in argument position, the token after it is
  an operator whenever the token two positions ahead is \<open>INT\<close>, that the parser then
  emits one binary node for the three tokens and a bare integer node in every other
  case, and that no \<open>INT\<close> token is dropped. The code tests only the token two
  positions ahead. On the three integer arguments of \<^verbatim>\<open>console.log(1,2,3);\<close> the
  token in between is \<open>INT\<close>, the switch appends nothing, the cursor moves past all
  three tokens, and the statement prints an empty line.
\<close>

theorem parse_drops_int_arguments:
  "Lex ''console.log(1,2,3);'' =
     Inr [\<lparr>Type = TokenConsole, Literal = ''console''\<rparr>,
          \<lparr>Type = TokenLog, Literal = ''log''\<rparr>,
          \<lparr>Type = TokenInt, Literal = ''1''\<rparr>,
          \<lparr>Type = TokenInt, Literal = ''2''\<rparr>,
          \<lparr>Type = TokenInt, Literal = ''3''\<rparr>]
   \<and> Parse [\<lparr>Type = TokenConsole, Literal = ''console''\<rparr>,
             \<lparr>Type = TokenLog, Literal = ''log''\<rparr>,
             \<lparr>Type = TokenInt, Literal = ''1''\<rparr>,
             \<lparr>Type = TokenInt, Literal = ''2''\<rparr>,
             \<lparr>Type = TokenInt, Literal = ''3''\<rparr>] = Inr [ConsoleLogNode []]
   \<and> pipeline ''console.log(1,2,3);'' = ([''''], None)"
  by code_simp

text \<open>
  Claim C5 says that \<^verbatim>\<open>Parse\<close> fails, with a failure of its own, whenever a
  \<open>CONSOLE\<close> token is not followed by \<open>LOG\<close> or the tokens end at that lookahead. On
  the tokens of
  \<^verbatim>\<open>console.log(1); console(2);\<close> the second \<open>CONSOLE\<close> is followed by \<open>INT\<close>, the
  inner loop steps over it and \<^verbatim>\<open>Parse\<close> returns normally; on a single \<open>CONSOLE\<close>
  token the read of \<^verbatim>\<open>tokens[i+1]\<close> panics with an index out of range, not with
  \<^verbatim>\<open>"Invalid syntax"\<close>, which a sequence that starts with another token does get.
\<close>

theorem parse_accepts_console_without_log:
  "Lex ''console.log(1); console(2);'' =
     Inr [\<lparr>Type = TokenConsole, Literal = ''console''\<rparr>,
          \<lparr>Type = TokenLog, Literal = ''log''\<rparr>,
          \<lparr>Type = TokenInt, Literal = ''1''\<rparr>,
          \<lparr>Type = TokenConsole, Literal = ''console''\<rparr>,
          \<lparr>Type = TokenInt, Literal = ''2''\<rparr>]
   \<and> Parse [\<lparr>Type = TokenConsole, Literal = ''console''\<rparr>,
             \<lparr>Type = TokenLog, Literal = ''log''\<rparr>,
             \<lparr>Type = TokenInt, Literal = ''1''\<rparr>,
             \<lparr>Type = TokenConsole, Literal = ''console''\<rparr>,
             \<lparr>Type = TokenInt, Literal = ''2''\<rparr>] = Inr [ConsoleLogNode []]
   \<and> Parse [\<lparr>Type = TokenConsole, Literal = ''console''\<rparr>] = Inl IndexOutOfRange
   \<and> Parse [\<lparr>Type = TokenLog, Literal = ''log''\<rparr>] = Inl InvalidSyntax"
  by code_simp

section \<open>Execution and evaluation\<close>

















section \<open>The lexer on one argument and on one statement\<close>

lemma IndexAny_first:
  assumes "set front \<inter> set chars = {}" and "c \<in> set chars"
  shows "ContainsAny (front @ c # rest) chars"
    and "IndexAny (front @ c # rest) chars = int (length front)"
proof -
  show contains: "ContainsAny (front @ c # rest) chars"
    using assms(2) by (auto simp: ContainsAny_def list_ex_iff)
  have "takeWhile (\<lambda>x. x \<notin> set chars) (front @ c # rest) = front"
    using assms by (subst takeWhile_append2) auto
  with contains show "IndexAny (front @ c # rest) chars = int (length front)"
    by (simp add: IndexAny_def)
qed

lemma slice_parts:
  "slice (front @ c # rest) 0 (int (length front)) = Inr front"
  "slice (front @ c # rest) (int (length front)) (int (length front) + 1) = Inr [c]"
  "slice (front @ c # rest) (int (length front) + 1) (int (length (front @ c # rest))) = Inr rest"
  by (simp_all add: slice_def nat_add_distrib)

lemma operator_tokens:
  "list_all (\<lambda>(c, kind). TrimSpace [c] = [c]
      \<and> operatorToken [c] = [\<lparr>Type = kind, Literal = [c]\<rparr>]
      \<and> c \<in> set operators) operatorKinds"
  by code_simp

lemma operator_token:
  assumes "(c, kind) \<in> set operatorKinds"
  shows "TrimSpace [c] = [c]"
    and "operatorToken [c] = [\<lparr>Type = kind, Literal = [c]\<rparr>]"
    and "c \<in> set operators"
  using operator_tokens assms by (auto simp: list_all_iff)

lemma lexArg_operator:
  assumes arg: "TrimSpace a = front @ c # rest"
    and op: "(c, kind) \<in> set operatorKinds"
    and first: "set front \<inter> set operators = {}"
    and unquoted: \<open>\<not> (HasPrefix (TrimSpace a) ''"'' \<and> HasSuffix (TrimSpace a) ''"'')\<close>
  shows "lexArg a =
     Inr [\<lparr>Type = TokenInt, Literal = TrimSpace front\<rparr>,
          \<lparr>Type = kind, Literal = [c]\<rparr>,
          \<lparr>Type = TokenInt, Literal = TrimSpace rest\<rparr>]"
proof -
  note c = operator_token [OF op]
  have idx: "ContainsAny (front @ c # rest) operators"
    "IndexAny (front @ c # rest) operators = int (length front)"
    using first c(3) by (rule IndexAny_first)+
  from unquoted
  have q: \<open>(HasPrefix (front @ c # rest) ''"'' \<and> HasSuffix (front @ c # rest) ''"'') = False\<close>
    by (simp only: arg)
  show ?thesis
    unfolding lexArg_def Let_def arg
    by (simp only: q if_False idx if_True slice_parts sum.case c append_Cons append_Nil)
qed

text \<open>
  Claim C6. On an argument that is not quoted at both ends and holds an operator
  character, the lexer honours the first one only: with \<open>front\<close> free of operator
  characters and \<open>c\<close> an operator character, the trimmed argument \<open>front @ c # rest\<close>
  gives an \<open>INT\<close> token for the trimmed \<open>front\<close>, the token of \<open>c\<close>, and an \<open>INT\<close> token
  for the trimmed \<open>rest\<close>, whatever operator characters \<open>rest\<close> holds. \<^verbatim>\<open>1+2*3\<close> gives
  \<open>INT 1\<close>, \<open>PLUS\<close>, \<open>INT 2*3\<close>.
\<close>

theorem lexer_honors_first_operator:
  \<open>(\<forall>a front c kind rest.
      TrimSpace a = front @ c # rest \<and> (c, kind) \<in> set operatorKinds
      \<and> set front \<inter> set operators = {}
      \<and> \<not> (HasPrefix (TrimSpace a) ''"'' \<and> HasSuffix (TrimSpace a) ''"'') \<longrightarrow>
      lexArg a =
        Inr [\<lparr>Type = TokenInt, Literal = TrimSpace front\<rparr>,
             \<lparr>Type = kind, Literal = [c]\<rparr>,
             \<lparr>Type = TokenInt, Literal = TrimSpace rest\<rparr>])
   \<and> Lex ''console.log(1+2*3);'' =
        Inr [\<lparr>Type = TokenConsole, Literal = ''console''\<rparr>,
             \<lparr>Type = TokenLog, Literal = ''log''\<rparr>,
             \<lparr>Type = TokenInt, Literal = ''1''\<rparr>,
             \<lparr>Type = TokenPlus, Literal = ''+''\<rparr>,
             \<lparr>Type = TokenInt, Literal = ''2*3''\<rparr>]\<close>
proof (intro conjI allI impI)
  fix a front c kind rest
  assume \<open>TrimSpace a = front @ c # rest \<and> (c, kind) \<in> set operatorKinds
      \<and> set front \<inter> set operators = {}
      \<and> \<not> (HasPrefix (TrimSpace a) ''"'' \<and> HasSuffix (TrimSpace a) ''"'')\<close>
  then show "lexArg a =
        Inr [\<lparr>Type = TokenInt, Literal = TrimSpace front\<rparr>,
             \<lparr>Type = kind, Literal = [c]\<rparr>,
             \<lparr>Type = TokenInt, Literal = TrimSpace rest\<rparr>]"
    by (elim conjE) (rule lexArg_operator)
next
  show "Lex ''console.log(1+2*3);'' =
        Inr [\<lparr>Type = TokenConsole, Literal = ''console''\<rparr>,
             \<lparr>Type = TokenLog, Literal = ''log''\<rparr>,
             \<lparr>Type = TokenInt, Literal = ''1''\<rparr>,
             \<lparr>Type = TokenPlus, Literal = ''+''\<rparr>,
             \<lparr>Type = TokenInt, Literal = ''2*3''\<rparr>]"
    by code_simp
qed

theorem lexer_honors_first_operator_witness:
  \<open>TrimSpace '' 1 + 2*3 '' = ''1 '' @ CHR ''+'' # '' 2*3''
   \<and> (CHR ''+'', TokenPlus) \<in> set operatorKinds
   \<and> set ''1 '' \<inter> set operators = {}
   \<and> \<not> (HasPrefix (TrimSpace '' 1 + 2*3 '') ''"'' \<and> HasSuffix (TrimSpace '' 1 + 2*3 '') ''"'')
   \<and> lexArg '' 1 + 2*3 '' =
        Inr [\<lparr>Type = TokenInt, Literal = ''1''\<rparr>,
             \<lparr>Type = TokenPlus, Literal = ''+''\<rparr>,
             \<lparr>Type = TokenInt, Literal = ''2*3''\<rparr>]\<close>
proof -
  have h: \<open>TrimSpace '' 1 + 2*3 '' = ''1 '' @ CHR ''+'' # '' 2*3''
      \<and> (CHR ''+'', TokenPlus) \<in> set operatorKinds
      \<and> set ''1 '' \<inter> set operators = {}
      \<and> \<not> (HasPrefix (TrimSpace '' 1 + 2*3 '') ''"'' \<and> HasSuffix (TrimSpace '' 1 + 2*3 '') ''"'')\<close>
    by code_simp
  have t: "TrimSpace ''1 '' = ''1''" "TrimSpace '' 2*3'' = ''2*3''"
    by code_simp+
  have "lexArg '' 1 + 2*3 '' =
        Inr [\<lparr>Type = TokenInt, Literal = TrimSpace ''1 ''\<rparr>,
             \<lparr>Type = TokenPlus, Literal = [CHR ''+'']\<rparr>,
             \<lparr>Type = TokenInt, Literal = TrimSpace '' 2*3''\<rparr>]"
    by (rule lexer_honors_first_operator [THEN conjunct1, rule_format]) (rule h)
  then have r: "lexArg '' 1 + 2*3 '' =
        Inr [\<lparr>Type = TokenInt, Literal = ''1''\<rparr>,
             \<lparr>Type = TokenPlus, Literal = ''+''\<rparr>,
             \<lparr>Type = TokenInt, Literal = ''2*3''\<rparr>]"
    by (simp only: t)
  from h r show ?thesis
    by (intro conjI) (elim conjE, assumption)+
qed

lemma slice_fault: "slice s lo hi = Inl e \<Longrightarrow> e = SliceBoundsOutOfRange"
  by (simp add: slice_def split: if_splits)

lemma lexStmt_missing_delimiter:
  assumes "CHR ''('' \<notin> set stmt \<or> CHR '')'' \<notin> set stmt"
  shows "lexStmt stmt tokens = Inl SliceBoundsOutOfRange"
proof (cases "CHR ''('' \<in> set stmt")
  case False
  then show ?thesis
    by (simp add: lexStmt_def Index_def slice_def)
next
  case True
  with assms have "CHR '')'' \<notin> set stmt"
    by blast
  then have "LastIndex stmt CHR '')'' = - 1"
    by (simp add: LastIndex_def)
  moreover have "0 \<le> Index stmt CHR ''(''"
    using True by (simp add: Index_def)
  ultimately have "slice stmt (Index stmt CHR ''('' + 1) (LastIndex stmt CHR '')'')
      = Inl SliceBoundsOutOfRange"
    by (simp add: slice_def)
  then show ?thesis
    by (auto simp: lexStmt_def Let_def split: sum.split dest: slice_fault)
qed

lemma lexArg_fault: "lexArg a = Inl e \<Longrightarrow> e = SliceBoundsOutOfRange"
  by (auto simp: lexArg_def Let_def slice_def split: if_splits sum.splits)

lemma lexArgs_fault: "lexArgs as tokens = Inl e \<Longrightarrow> e = SliceBoundsOutOfRange"
  by (induction as arbitrary: tokens) (auto split: sum.splits dest: lexArg_fault)

lemma lexStmt_fault: "lexStmt stmt tokens = Inl e \<Longrightarrow> e = SliceBoundsOutOfRange"
  by (auto simp: lexStmt_def Let_def slice_def split: if_splits sum.splits dest: lexArgs_fault)

lemma lexStmts_missing_delimiter:
  assumes "seg \<in> set segs" and "TrimSpace seg \<noteq> []"
    and "CHR ''('' \<notin> set (TrimSpace seg) \<or> CHR '')'' \<notin> set (TrimSpace seg)"
  shows "lexStmts segs tokens = Inl SliceBoundsOutOfRange"
  using assms(1)
proof (induction segs arbitrary: tokens)
  case Nil
  then show ?case by simp
next
  case (Cons s rest)
  show ?case
  proof (cases "TrimSpace s = []")
    case True
    with Cons assms(2) show ?thesis
      by auto
  next
    case nonempty: False
    show ?thesis
    proof (cases "lexStmt (TrimSpace s) tokens")
      case (Inl e)
      with nonempty show ?thesis
        by (simp add: lexStmt_fault)
    next
      case (Inr tokens')
      have "s \<noteq> seg"
        using Inr lexStmt_missing_delimiter [OF assms(3)] by auto
      with Cons Inr nonempty show ?thesis
        by auto
    qed
  qed
qed

text \<open>
  Claim C9. A statement without \<^verbatim>\<open>(\<close> or without \<^verbatim>\<open>)\<close> makes the lexer slice with
  the index -1 and panic; \<^verbatim>\<open>Lex\<close> returns no tokens for an input one of whose
  non-empty trimmed segments is such a statement.
\<close>

theorem segment_without_delimiters_faults:
  "(\<forall>stmt tokens. stmt \<noteq> [] \<and> (CHR ''('' \<notin> set stmt \<or> CHR '')'' \<notin> set stmt) \<longrightarrow>
      lexStmt stmt tokens = Inl SliceBoundsOutOfRange)
   \<and> (\<forall>input seg.
        seg \<in> set (Split input CHR '';'') \<and> TrimSpace seg \<noteq> []
        \<and> (CHR ''('' \<notin> set (TrimSpace seg) \<or> CHR '')'' \<notin> set (TrimSpace seg)) \<longrightarrow>
        Lex input = Inl SliceBoundsOutOfRange)
   \<and> Lex ''console.log 1;'' = Inl SliceBoundsOutOfRange
   \<and> Lex ''console.log(1;'' = Inl SliceBoundsOutOfRange"
proof (intro conjI allI impI)
  fix stmt tokens
  assume "stmt \<noteq> [] \<and> (CHR ''('' \<notin> set stmt \<or> CHR '')'' \<notin> set stmt)"
  then show "lexStmt stmt tokens = Inl SliceBoundsOutOfRange"
    by (elim conjE) (rule lexStmt_missing_delimiter)
next
  fix input seg
  assume "seg \<in> set (Split input CHR '';'') \<and> TrimSpace seg \<noteq> []
        \<and> (CHR ''('' \<notin> set (TrimSpace seg) \<or> CHR '')'' \<notin> set (TrimSpace seg))"
  then show "Lex input = Inl SliceBoundsOutOfRange"
    unfolding Lex_def by (elim conjE) (rule lexStmts_missing_delimiter)
next
  show "Lex ''console.log 1;'' = Inl SliceBoundsOutOfRange"
    by code_simp
next
  show "Lex ''console.log(1;'' = Inl SliceBoundsOutOfRange"
    by code_simp
qed

theorem segment_without_delimiters_faults_witness:
  "''console.log 2'' \<noteq> []
   \<and> CHR ''('' \<notin> set ''console.log 2''
   \<and> lexStmt ''console.log 2'' [] = Inl SliceBoundsOutOfRange
   \<and> '' console.log(2 '' \<in> set (Split ''console.log(1); console.log(2 ;'' CHR '';'')
   \<and> TrimSpace '' console.log(2 '' \<noteq> []
   \<and> CHR '')'' \<notin> set (TrimSpace '' console.log(2 '')
   \<and> Lex ''console.log(1); console.log(2 ;'' = Inl SliceBoundsOutOfRange"
proof -
  have g1: "''console.log 2'' \<noteq> []" "CHR ''('' \<notin> set ''console.log 2''"
    by simp_all
  have g2: "'' console.log(2 '' \<in> set (Split ''console.log(1); console.log(2 ;'' CHR '';'')"
    "TrimSpace '' console.log(2 '' \<noteq> []"
    "CHR '')'' \<notin> set (TrimSpace '' console.log(2 '')"
    by code_simp+
  from g1 have h1: "''console.log 2'' \<noteq> []
      \<and> (CHR ''('' \<notin> set ''console.log 2'' \<or> CHR '')'' \<notin> set ''console.log 2'')"
    by (intro conjI disjI1)
  from g2 have h2: "'' console.log(2 '' \<in> set (Split ''console.log(1); console.log(2 ;'' CHR '';'')
      \<and> TrimSpace '' console.log(2 '' \<noteq> []
      \<and> (CHR ''('' \<notin> set (TrimSpace '' console.log(2 '')
         \<or> CHR '')'' \<notin> set (TrimSpace '' console.log(2 ''))"
    by (intro conjI disjI2)
  have r1: "lexStmt ''console.log 2'' [] = Inl SliceBoundsOutOfRange"
    by (rule segment_without_delimiters_faults [THEN conjunct1, rule_format]) (rule h1)
  have r2: "Lex ''console.log(1); console.log(2 ;'' = Inl SliceBoundsOutOfRange"
    by (rule segment_without_delimiters_faults
          [THEN conjunct2, THEN conjunct1, rule_format]) (rule h2)
  from g1 g2 r1 r2 show ?thesis
    by (intro conjI)
qed

section \<open>The pipeline on arithmetic statements\<close>

subsection \<open>Strings that \<^verbatim>\<open>TrimSpace\<close> and \<^verbatim>\<open>Split\<close> leave alone\<close>

lemma spaceRunes_ends:
  "p \<in> set spaceRunes \<Longrightarrow> p \<noteq> [] \<and> \<not> graphic (hd p) \<and> \<not> graphic (last p)"
  by (auto simp: spaceRunes_def graphic_def)

lemma leadingSpace_graphic:
  assumes "s \<noteq> []" and "graphic (hd s)"
  shows "leadingSpace s = 0"
proof -
  have "take k s \<notin> set spaceRunes" if "0 < k" for k
  proof
    assume "take k s \<in> set spaceRunes"
    then have "\<not> graphic (hd (take k s))"
      by (simp add: spaceRunes_ends)
    moreover have "hd (take k s) = hd s"
      using that by (simp add: hd_take)
    ultimately show False
      using assms(2) by simp
  qed
  then show ?thesis
    by (simp add: leadingSpace_def)
qed

lemma trailingSpace_graphic:
  assumes "s \<noteq> []" and "graphic (last s)"
  shows "trailingSpace s = 0"
proof -
  have "drop (length s - k) s \<notin> set spaceRunes" if "0 < k" for k
  proof
    assume "drop (length s - k) s \<in> set spaceRunes"
    then have "\<not> graphic (last (drop (length s - k) s))"
      by (simp add: spaceRunes_ends)
    moreover have "last (drop (length s - k) s) = last s"
      using that assms(1) by (simp add: last_drop)
    ultimately show False
      using assms(2) by simp
  qed
  then show ?thesis
    by (simp add: trailingSpace_def)
qed

lemma TrimSpace_graphic:
  assumes "s \<noteq> []" and "graphic (hd s)" and "graphic (last s)"
  shows "TrimSpace s = s"
  using assms
  by (simp add: TrimSpace_def trimLeft.simps [of s] trimRight.simps [of s]
      leadingSpace_graphic trailingSpace_graphic)

lemma TrimSpace_Nil: "TrimSpace [] = []"
  by code_simp

lemma Split_no_sep: "sep \<notin> set s \<Longrightarrow> Split s sep = [s]"
  by (induction s) auto

lemma Split_at_sep: "sep \<notin> set s \<Longrightarrow> Split (s @ sep # t) sep = s # Split t sep"
  by (induction s) auto

lemma isDigit_graphic: "isDigit c \<Longrightarrow> graphic c"
  by (simp add: isDigit_def graphic_def)

lemma isDigit_not_special:
  \<open>isDigit x \<Longrightarrow> x \<notin> set ''();,+-*/%^ ."''\<close>
  by (auto simp: isDigit_def)

lemma digits_not_special:
  assumes "list_all isDigit s"
  shows \<open>set s \<inter> set ''();,+-*/%^ ."'' = {}\<close>
proof -
  have \<open>x \<notin> set ''();,+-*/%^ ."''\<close> if "x \<in> set s" for x
    using assms that by (intro isDigit_not_special) (simp add: list_all_iff)
  then show ?thesis
    by blast
qed

lemma digits_graphic:
  assumes "list_all isDigit s" and "s \<noteq> []"
  shows "graphic (hd s)" and "graphic (last s)"
  using assms by (simp_all add: list_all_iff isDigit_graphic)

lemma Index_first:
  assumes "c \<notin> set front"
  shows "Index (front @ c # rest) c = int (length front)"
proof -
  have "takeWhile (\<lambda>x. x \<noteq> c) (front @ c # rest) = front"
    using assms by (subst takeWhile_append2) auto
  then show ?thesis
    by (simp add: Index_def)
qed

lemma LastIndex_last: "c \<notin> set rest \<Longrightarrow>
  LastIndex (front @ c # rest) c = int (length front)"
proof -
  assume "c \<notin> set rest"
  then have "takeWhile (\<lambda>x. x \<noteq> c) (rev rest @ c # rev front) = rev rest"
    by (subst takeWhile_append2) auto
  then show ?thesis
    by (simp add: LastIndex_def)
qed

lemma slice_front: "slice (front @ rest) 0 (int (length front)) = Inr front"
  by (simp add: slice_def)

lemma slice_middle:
  "slice (front @ c # middle @ rest) (int (length front) + 1)
     (int (length (front @ c # middle))) = Inr middle"
  by (simp add: slice_def nat_add_distrib)

lemma lexStmt_call:
  assumes "CHR ''('' \<notin> set front"
  shows "lexStmt (front @ CHR ''('' # inner @ '')'') tokens =
    lexArgs (Split inner CHR '','')
      (lexWords (FieldsFunc front (\<lambda>r. r = CHR '' '' \<or> r = CHR ''.'')) tokens)"
proof -
  let ?stmt = "front @ CHR ''('' # inner @ '')''"
  have start: "Index ?stmt CHR ''('' = int (length front)"
    using assms by (rule Index_first)
  have "LastIndex ((front @ CHR ''('' # inner) @ CHR '')'' # []) CHR '')''
      = int (length (front @ CHR ''('' # inner))"
    by (rule LastIndex_last) simp
  then have stop: "LastIndex ?stmt CHR '')'' = int (length (front @ CHR ''('' # inner))"
    by simp
  have s1: "slice ?stmt 0 (int (length front)) = Inr front"
    by (rule slice_front)
  have s2: "slice ?stmt (int (length front) + 1) (int (length (front @ CHR ''('' # inner)))
      = Inr inner"
    by (rule slice_middle)
  show ?thesis
    unfolding lexStmt_def Let_def start stop s1 s2 by simp
qed

subsection \<open>Lexing and parsing \<^verbatim>\<open>console.log(a op b);\<close>\<close>

lemma console_log_words:
  "lexWords (FieldsFunc ''console.log'' (\<lambda>r. r = CHR '' '' \<or> r = CHR ''.'')) [] =
     [\<lparr>Type = TokenConsole, Literal = ''console''\<rparr>, \<lparr>Type = TokenLog, Literal = ''log''\<rparr>]"
  by code_simp

lemma operatorKinds_not_special:
  \<open>(c, kind) \<in> set operatorKinds \<Longrightarrow> c \<notin> set ''();,"'' \<and> graphic c\<close>
  by (auto simp: operatorKinds_def graphic_def)

lemma Lex_statement:
  assumes a: "a \<noteq> []" "list_all isDigit a"
    and b: "b \<noteq> []" "list_all isDigit b"
    and op: "(c, kind) \<in> set operatorKinds"
  shows "Lex (''console.log('' @ a @ c # b @ '');'') =
     Inr [\<lparr>Type = TokenConsole, Literal = ''console''\<rparr>,
          \<lparr>Type = TokenLog, Literal = ''log''\<rparr>,
          \<lparr>Type = TokenInt, Literal = a\<rparr>,
          \<lparr>Type = kind, Literal = [c]\<rparr>,
          \<lparr>Type = TokenInt, Literal = b\<rparr>]"
proof -
  define inner where "inner = a @ c # b"
  define stmt where "stmt = ''console.log'' @ CHR ''('' # inner @ '')''"
  note da = digits_not_special [OF a(2)] and db = digits_not_special [OF b(2)]
  note cs = operatorKinds_not_special [OF op]
  have ga: "graphic (hd a)" "graphic (last a)" and gb: "graphic (hd b)" "graphic (last b)"
    using a b by (simp_all add: digits_graphic)
  have trim_a: "TrimSpace a = a" and trim_b: "TrimSpace b = b"
    using a b ga gb by (simp_all add: TrimSpace_graphic)
  have trim_inner: "TrimSpace inner = a @ c # b"
    unfolding inner_def using a b ga gb by (intro TrimSpace_graphic) simp_all
  have \<open>\<not> HasPrefix (a @ c # b) ''"''\<close>
    using a da by (cases a) (auto simp: HasPrefix_def)
  then have unquoted: \<open>\<not> (HasPrefix (TrimSpace inner) ''"'' \<and> HasSuffix (TrimSpace inner) ''"'')\<close>
    unfolding trim_inner by simp
  have "set a \<inter> set operators = {}"
    using da by (auto simp: operators_def)
  with trim_inner op have "lexArg inner =
     Inr [\<lparr>Type = TokenInt, Literal = TrimSpace a\<rparr>,
          \<lparr>Type = kind, Literal = [c]\<rparr>,
          \<lparr>Type = TokenInt, Literal = TrimSpace b\<rparr>]"
    using unquoted by (rule lexArg_operator)
  then have arg: "lexArg inner =
     Inr [\<lparr>Type = TokenInt, Literal = a\<rparr>,
          \<lparr>Type = kind, Literal = [c]\<rparr>,
          \<lparr>Type = TokenInt, Literal = b\<rparr>]"
    by (simp only: trim_a trim_b)
  have "CHR '','' \<notin> set inner"
    unfolding inner_def using da db cs by auto
  then have args: "Split inner CHR '','' = [inner]"
    by (rule Split_no_sep)
  have "lexStmt stmt [] =
    lexArgs (Split inner CHR '','')
      (lexWords (FieldsFunc ''console.log'' (\<lambda>r. r = CHR '' '' \<or> r = CHR ''.'')) [])"
    unfolding stmt_def by (rule lexStmt_call) simp
  then have tokens: "lexStmt stmt [] =
     Inr [\<lparr>Type = TokenConsole, Literal = ''console''\<rparr>,
          \<lparr>Type = TokenLog, Literal = ''log''\<rparr>,
          \<lparr>Type = TokenInt, Literal = a\<rparr>,
          \<lparr>Type = kind, Literal = [c]\<rparr>,
          \<lparr>Type = TokenInt, Literal = b\<rparr>]"
    by (simp add: args console_log_words arg)
  have "CHR '';'' \<notin> set stmt"
    unfolding stmt_def inner_def using da db cs by auto
  then have "Split (stmt @ CHR '';'' # []) CHR '';'' = stmt # Split [] CHR '';''"
    by (rule Split_at_sep)
  then have segs: "Split (stmt @ '';'') CHR '';'' = [stmt, []]"
    by simp
  have nonempty: "stmt \<noteq> []"
    by (simp add: stmt_def)
  have "TrimSpace stmt = stmt"
    unfolding stmt_def by (rule TrimSpace_graphic) (simp_all add: graphic_def)
  with nonempty tokens have "lexStmts [stmt, []] [] = lexStmt stmt []"
    by (simp add: TrimSpace_Nil)
  then have "Lex (stmt @ '';'') = lexStmt stmt []"
    by (simp only: Lex_def segs)
  moreover have input: "''console.log('' @ a @ c # b @ '');'' = stmt @ '';''"
    by (simp add: stmt_def inner_def)
  ultimately show ?thesis
    by (simp only: input tokens)
qed

lemma Parse_statement:
  assumes "(c, kind) \<in> set operatorKinds"
  shows "Parse [\<lparr>Type = TokenConsole, Literal = ''console''\<rparr>,
          \<lparr>Type = TokenLog, Literal = ''log''\<rparr>,
          \<lparr>Type = TokenInt, Literal = a\<rparr>,
          \<lparr>Type = kind, Literal = [c]\<rparr>,
          \<lparr>Type = TokenInt, Literal = b\<rparr>] = Inr [ConsoleLogNode (binaryNode kind a b)]"
  by (simp add: Parse_def parseFrom.simps parseArgs.simps Token_defs)

subsection \<open>Operands and results within the range of \<^verbatim>\<open>int\<close>\<close>

lemma foldl_decimal_nonneg:
  "list_all isDigit s \<Longrightarrow> 0 \<le> n \<Longrightarrow> 0 \<le> foldl (\<lambda>n c. 10 * n + digitVal c) n s"
  by (induction s arbitrary: n) (auto simp: isDigit_def digitVal_def)

lemma decimal_nonneg: "list_all isDigit s \<Longrightarrow> 0 \<le> decimal s"
  by (simp add: decimal_def foldl_decimal_nonneg)

lemma Atoi_literal:
  assumes "a \<noteq> []" and "list_all isDigit a" and "decimal a \<le> maxInt"
  shows "fst (Atoi a) = decimal a"
proof -
  have "hd a \<in> set a"
    using assms(1) by simp
  then have "hd a \<notin> set ''+-''"
    using digits_not_special [OF assms(2)] by auto
  then have sign: "hd a \<noteq> CHR ''+''" "hd a \<noteq> CHR ''-''"
    by simp_all
  then have "unsignedPart a = a"
    by (simp add: unsignedPart_def)
  moreover from this have "isNumeral a"
    using assms by (simp add: isNumeral_def)
  moreover have "\<not> decimal a < minInt"
    using decimal_nonneg [OF assms(2)] by (simp add: minInt_def)
  ultimately show ?thesis
    using assms(3) sign by (simp add: Atoi_def Let_def)
qed

lemma wrapInt_in_range: "minInt \<le> x \<Longrightarrow> x \<le> maxInt \<Longrightarrow> wrapInt x = x"
proof -
  assume "minInt \<le> x" "x \<le> maxInt"
  then have "0 \<le> x + 2 ^ 63" "x + 2 ^ 63 < 2 ^ 64"
    by (simp_all add: minInt_def maxInt_def)
  then have "(x + 2 ^ 63) mod 2 ^ 64 = x + 2 ^ 63"
    by (rule mod_pos_pos_trivial)
  then show ?thesis
    by (simp add: wrapInt_def)
qed

lemma quoInt_nonneg: "0 \<le> a \<Longrightarrow> 0 < b \<Longrightarrow> quoInt a b = a div b"
  by (cases "a = 0") (simp_all add: quoInt_def)

lemma remInt_nonneg: "0 \<le> a \<Longrightarrow> 0 < b \<Longrightarrow> remInt a b = a mod b"
  by (cases "a = 0") (simp_all add: remInt_def)

text \<open>
  The text that \<^verbatim>\<open>Itoa\<close> prints for a non-negative integer is a string of digits
  with the value of that integer.
\<close>

lemma decimal_snoc: "decimal (s @ [c]) = 10 * decimal s + digitVal c"
  by (simp add: decimal_def)

lemma digit_chars:
  "list_all (\<lambda>k. digitVal (digitChar (int k)) = int k \<and> isDigit (digitChar (int k))) [0..<10]"
  by code_simp

lemma digitChar_digit:
  assumes "0 \<le> d" and "d < 10"
  shows "digitVal (digitChar d) = d" and "isDigit (digitChar d)"
proof -
  have "nat d \<in> set [0..<10]"
    using assms by simp
  with digit_chars
  have "digitVal (digitChar (int (nat d))) = int (nat d) \<and> isDigit (digitChar (int (nat d)))"
    unfolding list_all_iff by blast
  with assms(1) show "digitVal (digitChar d) = d" and "isDigit (digitChar d)"
    by simp_all
qed

lemma digitsOf_literal:
  "0 \<le> n \<Longrightarrow>
   digitsOf n \<noteq> [] \<and> list_all isDigit (digitsOf n) \<and> decimal (digitsOf n) = n"
proof (induction n rule: digitsOf.induct)
  case (1 n)
  show ?case
  proof (cases "n < 10")
    case True
    with "1.prems" show ?thesis
      by (simp add: digitsOf.simps [of n] digitChar_digit decimal_def)
  next
    case False
    with "1.prems" have "0 \<le> n div 10"
      by simp
    with False "1.IH" have ih: "list_all isDigit (digitsOf (n div 10))"
      "decimal (digitsOf (n div 10)) = n div 10"
      by simp_all
    have "0 \<le> n mod 10" "n mod 10 < 10"
      by simp_all
    then have d: "digitVal (digitChar (n mod 10)) = n mod 10" "isDigit (digitChar (n mod 10))"
      by (rule digitChar_digit)+
    from False ih d show ?thesis
      by (simp add: digitsOf.simps [of n] decimal_snoc)
  qed
qed

lemma Itoa_literal:
  "0 \<le> n \<Longrightarrow> Itoa n \<noteq> [] \<and> list_all isDigit (Itoa n) \<and> decimal (Itoa n) = n"
  by (simp add: Itoa_def digitsOf_literal)

lemma pipeline_statement:
  assumes "a \<noteq> []" "list_all isDigit a" "b \<noteq> []" "list_all isDigit b"
    and "(c, kind) \<in> set operatorKinds"
  shows "pipeline (''console.log('' @ a @ c # b @ '');'') =
    Eval [ConsoleLogNode (binaryNode kind a b)] []"
  by (simp only: pipeline_def Lex_statement [OF assms] Parse_statement [OF assms(5)] sum.case)

lemma statement_result:
  assumes "a \<noteq> []" "list_all isDigit a" "b \<noteq> []" "list_all isDigit b"
    and "(c, kind) \<in> set operatorKinds"
    and "binaryNode kind a b = [node]"
    and "Execute node = Inr text"
  shows "pipeline (''console.log('' @ a @ c # b @ '');'') = ([text], None)"
  by (simp only: pipeline_statement [OF assms(1-5)] assms(6)) (simp add: assms(7))

lemma operatorKinds_members:
  "(CHR ''+'', TokenPlus) \<in> set operatorKinds"
  "(CHR ''-'', TokenMinus) \<in> set operatorKinds"
  "(CHR ''*'', TokenMultiply) \<in> set operatorKinds"
  "(CHR ''/'', TokenDivide) \<in> set operatorKinds"
  "(CHR ''%'', TokenModulo) \<in> set operatorKinds"
  "(CHR ''^'', TokenPower) \<in> set operatorKinds"
  by (simp_all add: operatorKinds_def)

lemma binaryNode_kinds:
  "binaryNode TokenPlus a b = [PlusNode (IntNode a) (IntNode b)]"
  "binaryNode TokenMinus a b = [MinusNode (IntNode a) (IntNode b)]"
  "binaryNode TokenMultiply a b = [MultiplyNode (IntNode a) (IntNode b)]"
  "binaryNode TokenDivide a b = [DivideNode (IntNode a) (IntNode b)]"
  "binaryNode TokenModulo a b = [ModuloNode (IntNode a) (IntNode b)]"
  "binaryNode TokenPower a b = [PowerNode (IntNode a) (IntNode b)]"
  by (simp_all add: binaryNode_def Token_defs)

lemma literal_statements:
  assumes a: "a \<noteq> []" "list_all isDigit a" "decimal a \<le> maxInt"
    and b: "b \<noteq> []" "list_all isDigit b" "decimal b \<le> maxInt"
  shows "decimal a + decimal b \<le> maxInt \<Longrightarrow>
      pipeline (''console.log('' @ a @ ''+'' @ b @ '');'') = ([Itoa (decimal a + decimal b)], None)"
    and "pipeline (''console.log('' @ a @ ''-'' @ b @ '');'') = ([Itoa (decimal a - decimal b)], None)"
    and "decimal a * decimal b \<le> maxInt \<Longrightarrow>
      pipeline (''console.log('' @ a @ ''*'' @ b @ '');'') = ([Itoa (decimal a * decimal b)], None)"
    and "decimal b \<noteq> 0 \<Longrightarrow>
      pipeline (''console.log('' @ a @ ''/'' @ b @ '');'') = ([Itoa (decimal a div decimal b)], None)"
    and "decimal b \<noteq> 0 \<Longrightarrow>
      pipeline (''console.log('' @ a @ ''%'' @ b @ '');'') = ([Itoa (decimal a mod decimal b)], None)"
    and "decimal a \<le> 2 ^ 53 \<and> decimal b \<le> 2 ^ 53 \<and> decimal a ^ nat (decimal b) \<le> 2 ^ 53 \<Longrightarrow>
      pipeline (''console.log('' @ a @ ''^'' @ b @ '');'')
        = ([Itoa (decimal a ^ nat (decimal b))], None)"
proof -
  note va = Atoi_literal [OF a] and vb = Atoi_literal [OF b]
  note na = decimal_nonneg [OF a(2)] and nb = decimal_nonneg [OF b(2)]
  note result = statement_result [OF a(1,2) b(1,2)]
  have low: "minInt \<le> 0"
    by (simp add: minInt_def)
  have single: "[x] @ s = x # s" for x :: char and s
    by simp
  {
    assume "decimal a + decimal b \<le> maxInt"
    then have "wrapInt (decimal a + decimal b) = decimal a + decimal b"
      using na nb low by (intro wrapInt_in_range) simp_all
    then have ex: "Execute (PlusNode (IntNode a) (IntNode b)) = Inr (Itoa (decimal a + decimal b))"
      by (simp add: binary_def plusOp_def va vb)
    show "pipeline (''console.log('' @ a @ ''+'' @ b @ '');'')
        = ([Itoa (decimal a + decimal b)], None)"
      unfolding single
      by (rule result [OF operatorKinds_members(1) binaryNode_kinds(1) ex])
  }
  {
    have "minInt \<le> decimal a - decimal b" "decimal a - decimal b \<le> maxInt"
      using na nb a(3) b(3) by (simp_all add: minInt_def maxInt_def)
    then have "wrapInt (decimal a - decimal b) = decimal a - decimal b"
      by (rule wrapInt_in_range)
    then have ex: "Execute (MinusNode (IntNode a) (IntNode b)) = Inr (Itoa (decimal a - decimal b))"
      by (simp add: binary_def minusOp_def va vb)
    show "pipeline (''console.log('' @ a @ ''-'' @ b @ '');'')
        = ([Itoa (decimal a - decimal b)], None)"
      unfolding single
      by (rule result [OF operatorKinds_members(2) binaryNode_kinds(2) ex])
  }
  {
    assume product: "decimal a * decimal b \<le> maxInt"
    have "0 \<le> decimal a * decimal b"
      using na nb by (rule mult_nonneg_nonneg)
    with low have "minInt \<le> decimal a * decimal b"
      by (rule order_trans)
    then have "wrapInt (decimal a * decimal b) = decimal a * decimal b"
      using product by (rule wrapInt_in_range)
    then have ex: "Execute (MultiplyNode (IntNode a) (IntNode b))
        = Inr (Itoa (decimal a * decimal b))"
      by (simp add: binary_def multiplyOp_def va vb)
    show "pipeline (''console.log('' @ a @ ''*'' @ b @ '');'')
        = ([Itoa (decimal a * decimal b)], None)"
      unfolding single
      by (rule result [OF operatorKinds_members(3) binaryNode_kinds(3) ex])
  }
  {
    assume "decimal b \<noteq> 0"
    with nb have pos: "0 < decimal b"
      by simp
    have "decimal a div decimal b \<le> decimal a"
    proof (cases "decimal a = 0")
      case True
      then show ?thesis by simp
    next
      case False
      with na have "0 < decimal a" by simp
      then show ?thesis by (rule int_div_le_self)
    qed
    moreover have "0 \<le> decimal a div decimal b"
      using na pos by (simp add: pos_imp_zdiv_nonneg_iff)
    ultimately have "wrapInt (decimal a div decimal b) = decimal a div decimal b"
      using a(3) low by (intro wrapInt_in_range) simp_all
    then have ex: "Execute (DivideNode (IntNode a) (IntNode b))
        = Inr (Itoa (decimal a div decimal b))"
      using pos na by (simp add: binary_def divideOp_def va vb quoInt_nonneg)
    show "pipeline (''console.log('' @ a @ ''/'' @ b @ '');'')
        = ([Itoa (decimal a div decimal b)], None)"
      unfolding single
      by (rule result [OF operatorKinds_members(4) binaryNode_kinds(4) ex])
  }
  {
    assume "decimal b \<noteq> 0"
    with nb have pos: "0 < decimal b"
      by simp
    then have ex: "Execute (ModuloNode (IntNode a) (IntNode b))
        = Inr (Itoa (decimal a mod decimal b))"
      using na by (simp add: binary_def moduloOp_def va vb remInt_nonneg)
    show "pipeline (''console.log('' @ a @ ''%'' @ b @ '');'')
        = ([Itoa (decimal a mod decimal b)], None)"
      unfolding single
      by (rule result [OF operatorKinds_members(5) binaryNode_kinds(5) ex])
  }
  {
    assume "decimal a \<le> 2 ^ 53 \<and> decimal b \<le> 2 ^ 53 \<and> decimal a ^ nat (decimal b) \<le> 2 ^ 53"
    then have "powInt (decimal a) (decimal b) = Some (decimal a ^ nat (decimal b))"
      using na nb by (simp add: powInt_def float64Exact_def)
    then have ex: "Execute (PowerNode (IntNode a) (IntNode b))
        = Inr (Itoa (decimal a ^ nat (decimal b)))"
      by (simp add: binary_def powerOp_def va vb)
    show "pipeline (''console.log('' @ a @ ''^'' @ b @ '');'')
        = ([Itoa (decimal a ^ nat (decimal b))], None)"
      unfolding single
      by (rule result [OF operatorKinds_members(6) binaryNode_kinds(6) ex])
  }
qed

text \<open>
  Claim C4, as stated, is that every single-operator statement over integer literals
  prints the exact result. \<^verbatim>\<open>int\<close> has 64 bits: the sum of 9223372036854775807 and
  1 is 9223372036854775808, and the program prints -9223372036854775808.
\<close>

theorem sum_beyond_int_range_wraps:
  "list_all isDigit ''9223372036854775807'' \<and> list_all isDigit ''1''
   \<and> pipeline ''console.log(9223372036854775807+1);'' = ([''-9223372036854775808''], None)
   \<and> Itoa (decimal ''9223372036854775807'' + decimal ''1'') = ''9223372036854775808''"
  by code_simp

text \<open>
  Claim C4, amended. Let \<open>a\<close> and \<open>b\<close> be non-empty strings of decimal digits whose
  values fit \<^verbatim>\<open>int\<close>. Then \<^verbatim>\<open>console.log(a op b);\<close> prints exactly one line, the
  decimal text of the exact result: of the sum and the product when they fit \<^verbatim>\<open>int\<close>,
  of the difference, of the quotient truncated towards zero and of the remainder when
  \<open>b\<close> is not zero, and of the power when base, exponent and power are at most
  \<open>2 ^ 53\<close>, where the floating-point power is exact. \<^verbatim>\<open>console.log(3+4);\<close> prints 7,
  \<^verbatim>\<open>console.log(10%3);\<close> prints 1, \<^verbatim>\<open>console.log(2^5);\<close> prints 32 and
  \<^verbatim>\<open>console.log(7/2);\<close> prints 3. The decimal text of every non-negative
  integer is such a string of digits, with that integer as its value.
\<close>

theorem arithmetic_statement_result:
  "(\<forall>a b. a \<noteq> [] \<and> list_all isDigit a \<and> decimal a \<le> maxInt
        \<and> b \<noteq> [] \<and> list_all isDigit b \<and> decimal b \<le> maxInt \<longrightarrow>
      (decimal a + decimal b \<le> maxInt \<longrightarrow>
         pipeline (''console.log('' @ a @ ''+'' @ b @ '');'')
           = ([Itoa (decimal a + decimal b)], None))
    \<and> pipeline (''console.log('' @ a @ ''-'' @ b @ '');'')
           = ([Itoa (decimal a - decimal b)], None)
    \<and> (decimal a * decimal b \<le> maxInt \<longrightarrow>
         pipeline (''console.log('' @ a @ ''*'' @ b @ '');'')
           = ([Itoa (decimal a * decimal b)], None))
    \<and> (decimal b \<noteq> 0 \<longrightarrow>
         pipeline (''console.log('' @ a @ ''/'' @ b @ '');'')
           = ([Itoa (decimal a div decimal b)], None))
    \<and> (decimal b \<noteq> 0 \<longrightarrow>
         pipeline (''console.log('' @ a @ ''%'' @ b @ '');'')
           = ([Itoa (decimal a mod decimal b)], None))
    \<and> (decimal a \<le> 2 ^ 53 \<and> decimal b \<le> 2 ^ 53 \<and> decimal a ^ nat (decimal b) \<le> 2 ^ 53 \<longrightarrow>
         pipeline (''console.log('' @ a @ ''^'' @ b @ '');'')
           = ([Itoa (decimal a ^ nat (decimal b))], None)))
   \<and> pipeline ''console.log(3+4);'' = ([''7''], None)
   \<and> pipeline ''console.log(10%3);'' = ([''1''], None)
   \<and> pipeline ''console.log(2^5);'' = ([''32''], None)
   \<and> pipeline ''console.log(7/2);'' = ([''3''], None)
   \<and> (\<forall>n. 0 \<le> n \<longrightarrow>
        Itoa n \<noteq> [] \<and> list_all isDigit (Itoa n) \<and> decimal (Itoa n) = n)"
proof (intro conjI allI impI; (elim conjE)?)
  fix a b
  assume a: "a \<noteq> []" "list_all isDigit a" "decimal a \<le> maxInt"
    and b: "b \<noteq> []" "list_all isDigit b" "decimal b \<le> maxInt"
  note statements = literal_statements [OF a b]
  show "pipeline (''console.log('' @ a @ ''-'' @ b @ '');'')
      = ([Itoa (decimal a - decimal b)], None)"
    by (rule statements(2))
  {
    assume "decimal a + decimal b \<le> maxInt"
    then show "pipeline (''console.log('' @ a @ ''+'' @ b @ '');'')
        = ([Itoa (decimal a + decimal b)], None)"
      by (rule statements(1))
  }
  {
    assume "decimal a * decimal b \<le> maxInt"
    then show "pipeline (''console.log('' @ a @ ''*'' @ b @ '');'')
        = ([Itoa (decimal a * decimal b)], None)"
      by (rule statements(3))
  }
  {
    assume "decimal b \<noteq> 0"
    then show "pipeline (''console.log('' @ a @ ''/'' @ b @ '');'')
        = ([Itoa (decimal a div decimal b)], None)"
      by (rule statements(4))
  }
  {
    assume "decimal b \<noteq> 0"
    then show "pipeline (''console.log('' @ a @ ''%'' @ b @ '');'')
        = ([Itoa (decimal a mod decimal b)], None)"
      by (rule statements(5))
  }
  {
    assume "decimal a \<le> 2 ^ 53" "decimal b \<le> 2 ^ 53" "decimal a ^ nat (decimal b) \<le> 2 ^ 53"
    then have "decimal a \<le> 2 ^ 53 \<and> decimal b \<le> 2 ^ 53 \<and> decimal a ^ nat (decimal b) \<le> 2 ^ 53"
      by (intro conjI)
    then show "pipeline (''console.log('' @ a @ ''^'' @ b @ '');'')
        = ([Itoa (decimal a ^ nat (decimal b))], None)"
      by (rule statements(6))
  }
next
  show "pipeline ''console.log(3+4);'' = ([''7''], None)"
    by code_simp
next
  show "pipeline ''console.log(10%3);'' = ([''1''], None)"
    by code_simp
next
  show "pipeline ''console.log(2^5);'' = ([''32''], None)"
    by code_simp
next
  show "pipeline ''console.log(7/2);'' = ([''3''], None)"
    by code_simp
next
  fix n :: int
  assume "0 \<le> n"
  then have literal: "Itoa n \<noteq> [] \<and> list_all isDigit (Itoa n) \<and> decimal (Itoa n) = n"
    by (rule Itoa_literal)
  from literal show "Itoa n \<noteq> []"
    by (elim conjE)
  from literal show "list_all isDigit (Itoa n)"
    by (elim conjE)
  from literal show "decimal (Itoa n) = n"
    by (elim conjE)
qed

theorem arithmetic_statement_result_witness:
  "''12'' \<noteq> [] \<and> list_all isDigit ''12'' \<and> decimal ''12'' \<le> maxInt
   \<and> ''5'' \<noteq> [] \<and> list_all isDigit ''5'' \<and> decimal ''5'' \<le> maxInt
   \<and> decimal ''12'' + decimal ''5'' \<le> maxInt
   \<and> decimal ''12'' * decimal ''5'' \<le> maxInt
   \<and> decimal ''5'' \<noteq> 0
   \<and> decimal ''12'' \<le> 2 ^ 53 \<and> decimal ''5'' \<le> 2 ^ 53
   \<and> decimal ''12'' ^ nat (decimal ''5'') \<le> 2 ^ 53
   \<and> pipeline ''console.log(12+5);'' = ([''17''], None)
   \<and> pipeline ''console.log(12-5);'' = ([''7''], None)
   \<and> pipeline ''console.log(12*5);'' = ([''60''], None)
   \<and> pipeline ''console.log(12/5);'' = ([''2''], None)
   \<and> pipeline ''console.log(12%5);'' = ([''2''], None)
   \<and> pipeline ''console.log(12^5);'' = ([''248832''], None)
   \<and> (0 :: int) \<le> 12 \<and> Itoa 12 = ''12'' \<and> decimal (Itoa 12) = 12"
proof -
  have h: "''12'' \<noteq> [] \<and> list_all isDigit ''12'' \<and> decimal ''12'' \<le> maxInt
      \<and> ''5'' \<noteq> [] \<and> list_all isDigit ''5'' \<and> decimal ''5'' \<le> maxInt"
    by code_simp
  have h1: "decimal ''12'' + decimal ''5'' \<le> maxInt"
    and h3: "decimal ''12'' * decimal ''5'' \<le> maxInt"
    and h4: "decimal ''5'' \<noteq> 0"
    and h6: "decimal ''12'' \<le> 2 ^ 53 \<and> decimal ''5'' \<le> 2 ^ 53
      \<and> decimal ''12'' ^ nat (decimal ''5'') \<le> 2 ^ 53"
    by code_simp+
  have results: "Itoa (decimal ''12'' + decimal ''5'') = ''17''"
    "Itoa (decimal ''12'' - decimal ''5'') = ''7''"
    "Itoa (decimal ''12'' * decimal ''5'') = ''60''"
    "Itoa (decimal ''12'' div decimal ''5'') = ''2''"
    "Itoa (decimal ''12'' mod decimal ''5'') = ''2''"
    "Itoa (decimal ''12'' ^ nat (decimal ''5'')) = ''248832''"
    by code_simp+
  have texts: "''console.log('' @ ''12'' @ ''+'' @ ''5'' @ '');'' = ''console.log(12+5);''"
    "''console.log('' @ ''12'' @ ''-'' @ ''5'' @ '');'' = ''console.log(12-5);''"
    "''console.log('' @ ''12'' @ ''*'' @ ''5'' @ '');'' = ''console.log(12*5);''"
    "''console.log('' @ ''12'' @ ''/'' @ ''5'' @ '');'' = ''console.log(12/5);''"
    "''console.log('' @ ''12'' @ ''%'' @ ''5'' @ '');'' = ''console.log(12%5);''"
    "''console.log('' @ ''12'' @ ''^'' @ ''5'' @ '');'' = ''console.log(12^5);''"
    by simp_all
  note general = arithmetic_statement_result [THEN conjunct1, rule_format, OF h]
  have r1: "pipeline ''console.log(12+5);'' = ([''17''], None)"
    using general [THEN conjunct1, rule_format, OF h1] by (simp only: results texts)
  have r2: "pipeline ''console.log(12-5);'' = ([''7''], None)"
    using general [THEN conjunct2, THEN conjunct1] by (simp only: results texts)
  have r3: "pipeline ''console.log(12*5);'' = ([''60''], None)"
    using general [THEN conjunct2, THEN conjunct2, THEN conjunct1, rule_format, OF h3]
    by (simp only: results texts)
  have r4: "pipeline ''console.log(12/5);'' = ([''2''], None)"
    using general [THEN conjunct2, THEN conjunct2, THEN conjunct2, THEN conjunct1,
        rule_format, OF h4]
    by (simp only: results texts)
  have r5: "pipeline ''console.log(12%5);'' = ([''2''], None)"
    using general [THEN conjunct2, THEN conjunct2, THEN conjunct2, THEN conjunct2,
        THEN conjunct1, rule_format, OF h4]
    by (simp only: results texts)
  have r6: "pipeline ''console.log(12^5);'' = ([''248832''], None)"
    using general [THEN conjunct2, THEN conjunct2, THEN conjunct2, THEN conjunct2,
        THEN conjunct2, rule_format, OF h6]
    by (simp only: results texts)
  have h7: "(0 :: int) \<le> 12" "Itoa 12 = ''12''"
    by simp code_simp
  have r7: "decimal (Itoa 12) = 12"
    using arithmetic_statement_result
      [THEN conjunct2, THEN conjunct2, THEN conjunct2, THEN conjunct2, THEN conjunct2,
        rule_format, OF h7(1)]
    by (elim conjE)
  from h h1 h3 h4 h6 r1 r2 r3 r4 r5 r6 h7 r7 show ?thesis
    by (intro conjI) (elim conjE, assumption)+
qed

section \<open>A lone quote as an argument\<close>

lemma lexArg_lone_quote:
  \<open>TrimSpace a = ''"'' \<Longrightarrow> lexArg a = Inl SliceBoundsOutOfRange\<close>
  by (simp add: lexArg_def HasPrefix_def HasSuffix_def slice_def)

lemma lexArgs_faulting_argument:
  assumes "a \<in> set as" and "lexArg a = Inl e"
  shows "lexArgs as tokens = Inl SliceBoundsOutOfRange"
  using assms(1)
proof (induction as arbitrary: tokens)
  case Nil
  then show ?case by simp
next
  case (Cons x xs)
  show ?case
  proof (cases "lexArg x")
    case (Inl e')
    then show ?thesis
      by (simp add: lexArg_fault)
  next
    case (Inr ts)
    with assms(2) have "x \<noteq> a"
      by auto
    with Cons Inr show ?thesis
      by auto
  qed
qed

lemma lexStmts_faulting_segment:
  assumes "seg \<in> set segs" and "TrimSpace seg \<noteq> []"
    and "\<And>tokens. lexStmt (TrimSpace seg) tokens = Inl SliceBoundsOutOfRange"
  shows "lexStmts segs tokens = Inl SliceBoundsOutOfRange"
  using assms(1)
proof (induction segs arbitrary: tokens)
  case Nil
  then show ?case by simp
next
  case (Cons s rest)
  show ?case
  proof (cases "TrimSpace s = []")
    case True
    with Cons assms(2) show ?thesis
      by auto
  next
    case nonempty: False
    show ?thesis
    proof (cases "lexStmt (TrimSpace s) tokens")
      case (Inl e)
      with nonempty show ?thesis
        by (simp add: lexStmt_fault)
    next
      case (Inr tokens')
      have "s \<noteq> seg"
        using Inr assms(3) [of tokens] by auto
      with Cons Inr nonempty show ?thesis
        by auto
    qed
  qed
qed

lemma Lex_lone_quote:
  assumes seg: "seg \<in> set (Split input CHR '';'')"
    and call: "TrimSpace seg = front @ CHR ''('' # inner @ '')''"
    and front: "CHR ''('' \<notin> set front"
    and arg: "a \<in> set (Split inner CHR '','')"
    and quote: \<open>TrimSpace a = ''"''\<close>
  shows "Lex input = Inl SliceBoundsOutOfRange"
proof -
  have "lexArg a = Inl SliceBoundsOutOfRange"
    using quote by (rule lexArg_lone_quote)
  with arg have "lexArgs (Split inner CHR '','') tokens = Inl SliceBoundsOutOfRange" for tokens
    by (rule lexArgs_faulting_argument)
  then have "lexStmt (TrimSpace seg) tokens = Inl SliceBoundsOutOfRange" for tokens
    unfolding call by (simp only: lexStmt_call [OF front])
  moreover have "TrimSpace seg \<noteq> []"
    by (simp add: call)
  ultimately show ?thesis
    unfolding Lex_def using seg by (intro lexStmts_faulting_segment)
qed

text \<open>
  Claim C10. An argument that is exactly one double quote starts and ends with a quote,
  so the lexer slices \<^verbatim>\<open>arg[1 : len(arg)-1]\<close>, that is \<^verbatim>\<open>arg[1:0]\<close>, and
  panics. \<^verbatim>\<open>Lex\<close> returns no tokens for an input with such an argument in a
  statement that ends with \<^verbatim>\<open>)\<close>, as in \<^verbatim>\<open>console.log(");\<close>.
\<close>

theorem lone_quote_argument_faults:
  \<open>(\<forall>a. TrimSpace a = ''"'' \<longrightarrow> lexArg a = Inl SliceBoundsOutOfRange)
   \<and> (\<forall>input seg front inner a.
        seg \<in> set (Split input CHR '';'')
        \<and> TrimSpace seg = front @ CHR ''('' # inner @ '')''
        \<and> CHR ''('' \<notin> set front
        \<and> a \<in> set (Split inner CHR '','')
        \<and> TrimSpace a = ''"'' \<longrightarrow>
        Lex input = Inl SliceBoundsOutOfRange)
   \<and> Lex ''console.log(");'' = Inl SliceBoundsOutOfRange\<close>
proof (intro conjI allI impI)
  fix a
  assume \<open>TrimSpace a = ''"''\<close>
  then show "lexArg a = Inl SliceBoundsOutOfRange"
    by (rule lexArg_lone_quote)
next
  fix input seg front inner a
  assume \<open>seg \<in> set (Split input CHR '';'')
        \<and> TrimSpace seg = front @ CHR ''('' # inner @ '')''
        \<and> CHR ''('' \<notin> set front
        \<and> a \<in> set (Split inner CHR '','')
        \<and> TrimSpace a = ''"''\<close>
  then show "Lex input = Inl SliceBoundsOutOfRange"
    by (elim conjE) (rule Lex_lone_quote)
next
  show \<open>Lex ''console.log(");'' = Inl SliceBoundsOutOfRange\<close>
    by code_simp
qed

theorem lone_quote_argument_faults_witness:
  \<open>TrimSpace '' " '' = ''"'' \<and> lexArg '' " '' = Inl SliceBoundsOutOfRange
   \<and> '' console.log(2, " )'' \<in> set (Split ''console.log(1); console.log(2, " );'' CHR '';'')
   \<and> TrimSpace '' console.log(2, " )'' = ''console.log'' @ CHR ''('' # ''2, " '' @ '')''
   \<and> CHR ''('' \<notin> set ''console.log''
   \<and> '' " '' \<in> set (Split ''2, " '' CHR '','')
   \<and> Lex ''console.log(1); console.log(2, " );'' = Inl SliceBoundsOutOfRange\<close>
proof -
  have trimmed: \<open>TrimSpace '' " '' = ''"''\<close>
    by code_simp
  have h: \<open>'' console.log(2, " )'' \<in> set (Split ''console.log(1); console.log(2, " );'' CHR '';'')
      \<and> TrimSpace '' console.log(2, " )'' = ''console.log'' @ CHR ''('' # ''2, " '' @ '')''
      \<and> CHR ''('' \<notin> set ''console.log''
      \<and> '' " '' \<in> set (Split ''2, " '' CHR '','')
      \<and> TrimSpace '' " '' = ''"''\<close>
    by code_simp
  have r1: \<open>lexArg '' " '' = Inl SliceBoundsOutOfRange\<close>
    using trimmed by (rule lone_quote_argument_faults [THEN conjunct1, rule_format])
  have r2: \<open>Lex ''console.log(1); console.log(2, " );'' = Inl SliceBoundsOutOfRange\<close>
    using h by (rule lone_quote_argument_faults [THEN conjunct2, THEN conjunct1, rule_format])
  from trimmed r1 h r2 show ?thesis
    by (intro conjI) (elim conjE, assumption)+
qed

end
